theory Spec2Isabelle
  imports Complex_Main "HOL-Library.Multiset"
begin

section \<open>Conventions of the embedding\<close>

text \<open>
  The development embeds the particle engine of the editor (main.js) and of the embeddable
  renderer (particle-renderer.js).

  \<^item> A JavaScript number is modelled as the real number it denotes (\<open>real\<close>); colour
    channels, which the data model fixes as integers and which \<open>Math.round\<close> keeps integral,
    as \<open>int\<close>.
  \<^item> The arithmetic of a morph (the interpolation of positions and colours, the easing curve
    and the accumulation of the morph progress) is the arithmetic of IEEE 754 doubles: the
    result of each operation is rounded to the nearest double by \<open>fl\<close>, defined below. The
    remaining arithmetic (rotation, centring and scaling of points, opacity) is written over
    the reals; what is proved about it is stated over the reals.
  \<^item> A field that may be \<open>undefined\<close> is an \<open>option\<close>, \<open>None\<close> standing for the absent value.
  \<^item> Reading a property of \<open>undefined\<close> throws a \<open>TypeError\<close>: functions that can do so
    return \<open>js_error + 'a\<close>. The state in which an uncaught exception leaves the engine is
    not modelled.
  \<^item> \<open>Math.random()\<close> is a parameter \<open>rnd :: nat \<Rightarrow> real\<close>: \<open>rnd k\<close> is the value of the
    \<open>k\<close>-th call. The number of calls made so far is part of the state.
  \<^item> Record fields keep the names of the source. Where two classes of the source share a
    field name, the fields of frame points carry the prefix \<open>pt_\<close>, those of the renderer
    \<open>r_\<close> (\<open>opt_\<close> for its options, \<open>np_\<close> for its normalised points) and those of
    parsed interchange data \<open>j_\<close>. The fields \<open>x\<close>, \<open>y\<close> of a particle are \<open>posX\<close>, \<open>posY\<close>.
\<close>

datatype js_error = TypeError

section \<open>Double-precision arithmetic\<close>

text \<open>
  \<open>roundEven y\<close> is the integer nearest to \<open>y\<close>, the even one of the two when \<open>y\<close> lies halfway
  between them. \<open>fl x\<close> is \<open>x\<close> rounded to 53 significant bits, to nearest, ties to even: for
  \<open>x\<close> of magnitude at least \<open>2 ^ e\<close> and below \<open>2 ^ (e + 1)\<close> it is the nearest multiple of
  \<open>2 ^ (e - 52)\<close>. This is the rounding of every JavaScript operation \<open>+\<close>, \<open>-\<close>, \<open>*\<close>, \<open>/\<close> on
  numbers, and of a decimal literal, as long as the magnitude of the result stays within the
  range of the normal doubles. The exponent of \<open>fl\<close> is unbounded: overflow to \<open>Infinity\<close>, the
  loss of precision of a product or quotient below \<open>2 ^ -1022\<close>, \<open>NaN\<close> and the sign of zero
  are not modelled.
\<close>

definition roundEven :: "real \<Rightarrow> int" where
  "roundEven y =
     (let f = \<lfloor>y\<rfloor>; d = y - real_of_int f
      in if d < 1 / 2 then f else if d > 1 / 2 then f + 1 else if even f then f else f + 1)"

definition fl :: "real \<Rightarrow> real" where
  "fl x =
     (if x = 0 then 0
      else (let e = \<lfloor>log 2 \<bar>x\<bar>\<rfloor>
            in real_of_int (roundEven (x * 2 powr real_of_int (52 - e))) * 2 powr real_of_int (e - 52)))"


section \<open>Transform engine: rotation about a fixed centre\<close>

text \<open>
  The rotation code of \<open>Particle.update\<close> (main.js, CASE 2) and of the transform loop of
  \<open>ParticleRenderer._animate\<close> (particle-renderer.js) is the same text: translate the base
  position by the rotation centre (x and y only, z is taken as it is), rotate about X, then
  about Y, then about Z, each axis skipped when its angle is exactly zero, and translate
  back.
\<close>

definition transform ::
  "real \<Rightarrow> real \<Rightarrow> real \<times> real \<times> real \<Rightarrow> real \<times> real \<times> real \<Rightarrow> real \<times> real \<times> real" where
  "transform centerX centerY angles base =
     (case angles of (angleX, angleY, angleZ) \<Rightarrow>
      case base of (baseX, baseY, baseZ) \<Rightarrow>
        let x = baseX - centerX;
            y = baseY - centerY;
            z = baseZ;
            (y, z) = (if angleX \<noteq> 0
                      then (y * cos angleX - z * sin angleX, y * sin angleX + z * cos angleX)
                      else (y, z));
            (x, z) = (if angleY \<noteq> 0
                      then (x * cos angleY + z * sin angleY, - x * sin angleY + z * cos angleY)
                      else (x, z));
            (x, y) = (if angleZ \<noteq> 0
                      then (x * cos angleZ - y * sin angleZ, x * sin angleZ + y * cos angleZ)
                      else (x, y))
        in (x + centerX, y + centerY, z))"

text \<open>
  The largest absolute depth of a tick, floored at 1 (\<open>let maxZ = 1; for ... if (absZ > maxZ)
  maxZ = absZ\<close>), the same loop in \<open>animate\<close> and in \<open>_animate\<close>, over the depths of the
  particles.
\<close>

definition maxAbsDepth :: "real list \<Rightarrow> real" where
  "maxAbsDepth zs = fold (\<lambda>z maxZ. if \<bar>z\<bar> > maxZ then \<bar>z\<bar> else maxZ) zs 1"

section \<open>The editor (main.js)\<close>

subsection \<open>Particles\<close>

text \<open>
  The fields of \<open>Particle\<close> that the update and morph code reads or writes. The fields used
  by drawing only (\<open>layer\<close>, \<open>displaySize\<close>, \<open>displayR\<close>, ..., \<open>screenX\<close>, \<open>screenY\<close>) and the
  copies \<open>targetX\<close>, \<open>targetY\<close> of the constructor arguments are left out.
\<close>

record particle =
  posX :: real
  posY :: real
  vx :: real
  vy :: real
  baseX :: real
  baseY :: real
  baseZ :: real
  currentZ :: real
  hasTarget :: bool
  sourceR :: int
  sourceG :: int
  sourceB :: int
  morphTargetX :: real
  morphTargetY :: real
  morphTargetZ :: real
  morphTargetR :: int
  morphTargetG :: int
  morphTargetB :: int
  morphStartX :: real
  morphStartY :: real
  morphStartZ :: real
  morphStartR :: int
  morphStartG :: int
  morphStartB :: int
  markedForRemoval :: bool

text \<open>
  What the particle code reads from outside: the canvas size, the rotation centre, the
  sliders \<open>speed\<close>, \<open>rotX\<close>, \<open>rotY\<close>, \<open>rotZ\<close> (degrees) and the rotation mode.
\<close>

record env =
  canvas_width :: real
  canvas_height :: real
  rotationCenterX :: real
  rotationCenterY :: real
  speed :: real
  rotX :: real
  rotY :: real
  rotZ :: real
  animationEnabled :: bool
  staticRotX :: real
  staticRotY :: real
  staticRotZ :: real

text \<open>\<open>v || d\<close> on a number that may be absent: \<open>undefined\<close>, \<open>null\<close> and 0 are falsy.\<close>

definition falsy :: "real option \<Rightarrow> bool" where
  "falsy v = (case v of None \<Rightarrow> True | Some n \<Rightarrow> n = 0)"

definition or_else :: "real option \<Rightarrow> real \<Rightarrow> real" where
  "or_else v d = (case v of None \<Rightarrow> d | Some n \<Rightarrow> if n = 0 then d else n)"

text \<open>
  \<open>new Particle(x, y, layer, targetX, targetY, baseZ)\<close>, without the argument \<open>layer\<close>; an
  argument that is not given (or is \<open>null\<close>) is \<open>None\<close>. The constructor calls
  \<open>Math.random()\<close> for \<open>x\<close> and for \<open>y\<close> only when the argument is falsy (the right operand
  of \<open>||\<close> is evaluated only then), then once for each velocity component. The result is
  the particle and the number of calls made after it.
\<close>

definition Particle ::
  "env \<Rightarrow> (nat \<Rightarrow> real) \<Rightarrow> nat \<Rightarrow> real option \<Rightarrow> real option \<Rightarrow> real option \<Rightarrow> real option
     \<Rightarrow> real option \<Rightarrow> particle \<times> nat" where
  "Particle e rnd k x y targetX targetY bZ =
     (let x' = or_else x (rnd k * canvas_width e);
          k1 = (if falsy x then k + 1 else k);
          y' = or_else y (rnd k1 * canvas_height e);
          k2 = (if falsy y then k1 + 1 else k1);
          vx' = (rnd k2 - 0.5) * 2;
          vy' = (rnd (k2 + 1) - 0.5) * 2;
          bx = or_else targetX x';
          by' = or_else targetY y';
          bz = or_else bZ 0
      in (\<lparr> posX = x', posY = y', vx = vx', vy = vy',
            baseX = bx, baseY = by', baseZ = bz, currentZ = bz,
            hasTarget = (targetX \<noteq> None \<and> targetY \<noteq> None),
            sourceR = 74, sourceG = 222, sourceB = 128,
            morphTargetX = bx, morphTargetY = by', morphTargetZ = bz,
            morphTargetR = 74, morphTargetG = 222, morphTargetB = 128,
            morphStartX = bx, morphStartY = by', morphStartZ = bz,
            morphStartR = 74, morphStartG = 222, morphStartB = 128,
            markedForRemoval = False \<rparr>, k2 + 2))"



subsection \<open>Frames\<close>

text \<open>
  A point of a saved frame, \<open>{targetX, targetY, baseZ, r, g, b}\<close>. Imported points keep
  absent colour channels absent (\<open>r: p.r\<close>), so the channels are optional.
\<close>

record fpoint =
  pt_targetX :: real
  pt_targetY :: real
  pt_baseZ :: real
  pt_r :: "int option"
  pt_g :: "int option"
  pt_b :: "int option"

record frame =
  name :: string
  points :: "fpoint list"
  pointCount :: nat

definition setMorphTarget :: "fpoint \<Rightarrow> particle \<Rightarrow> particle" where
  "setMorphTarget point p =
     p\<lparr> morphStartX := baseX p, morphStartY := baseY p, morphStartZ := baseZ p,
        morphStartR := sourceR p, morphStartG := sourceG p, morphStartB := sourceB p,
        morphTargetX := pt_targetX point,
        morphTargetY := pt_targetY point,
        morphTargetZ := or_else (Some (pt_baseZ point)) 0,
        morphTargetR := (case pt_r point of Some c \<Rightarrow> c | None \<Rightarrow> 74),
        morphTargetG := (case pt_g point of Some c \<Rightarrow> c | None \<Rightarrow> 222),
        morphTargetB := (case pt_b point of Some c \<Rightarrow> c | None \<Rightarrow> 128) \<rparr>"


text \<open>
  The opacity target computed by \<open>Particle.draw\<close> before smoothing, as a function of the
  particle's layer and depth, the fog switch and the tick's \<open>maxZ\<close>.
\<close>

definition draw_targetOpacity :: "real \<Rightarrow> bool \<Rightarrow> real \<Rightarrow> real \<Rightarrow> real" where
  "draw_targetOpacity layer useDepthFog curZ maxZ =
     (let targetOpacity = max 0.2 (1 - (layer - 1) * 0.04)
      in if maxZ > 0 \<and> useDepthFog
         then (let normalizedZ = (curZ + maxZ) / (2 * maxZ);
                   easeZ = normalizedZ * normalizedZ
               in max 0.05 (0.15 + easeZ * 0.85))
         else targetOpacity)"

subsection \<open>Morph controller\<close>

record editor =
  particles :: "particle list"
  frames :: "frame list"
  currentFrameIndex :: int
  isMorphing :: bool
  morphProgress :: real
  morphSpeed :: real
  animTime :: nat
  randomCalls :: nat

text \<open>
  The spawn loop of \<open>morphToFrame\<close>: while there are fewer particles than target points,
  clone the particle at a random index below \<open>existingCount\<close>. Reading a field of
  \<open>particles[i]\<close> where there is no such particle throws.
\<close>

function spawn ::
  "env \<Rightarrow> (nat \<Rightarrow> real) \<Rightarrow> nat \<Rightarrow> nat \<Rightarrow> particle list \<Rightarrow> nat \<Rightarrow> js_error + particle list \<times> nat" where
  "spawn e rnd existingCount targetCount ps k =
     (if length ps < targetCount
      then (let i = \<lfloor>rnd k * real existingCount\<rfloor>
            in if 0 \<le> i \<and> nat i < length ps
               then (let sourceParticle = ps ! nat i;
                         (p, k') = Particle e rnd (k + 1)
                                     (Some (baseX sourceParticle)) (Some (baseY sourceParticle))
                                     (Some (baseX sourceParticle)) (Some (baseY sourceParticle))
                                     (Some (baseZ sourceParticle));
                         p' = p\<lparr> sourceR := sourceR sourceParticle,
                                  sourceG := sourceG sourceParticle,
                                  sourceB := sourceB sourceParticle \<rparr>
                     in spawn e rnd existingCount targetCount (ps @ [p']) k')
               else Inl TypeError)
      else Inr (ps, k))"
  by pat_completeness auto
termination
  by (relation "measure (\<lambda>(e, rnd, existingCount, targetCount, ps, k). targetCount - length ps)")
     auto

text \<open>
  The target loop of \<open>morphToFrame\<close>, from index \<open>i\<close> on: the first \<open>targetCount\<close> particles
  get the target point of their index, every other particle a random target point and the
  removal mark. \<open>setMorphTarget(undefined)\<close> throws.
\<close>

function setTargets ::
  "(nat \<Rightarrow> real) \<Rightarrow> fpoint list \<Rightarrow> nat \<Rightarrow> particle list \<Rightarrow> nat \<Rightarrow> js_error + particle list \<times> nat" where
  "setTargets rnd targetPoints i ps k =
     (if i < length ps
      then (if i < length targetPoints
            then setTargets rnd targetPoints (i + 1)
                   (ps[i := (setMorphTarget (targetPoints ! i) (ps ! i))\<lparr> markedForRemoval := False \<rparr>]) k
            else (let j = \<lfloor>rnd k * real (length targetPoints)\<rfloor>
                  in if 0 \<le> j \<and> nat j < length targetPoints
                     then setTargets rnd targetPoints (i + 1)
                            (ps[i := (setMorphTarget (targetPoints ! nat j) (ps ! i))
                                       \<lparr> markedForRemoval := True \<rparr>]) (k + 1)
                     else Inl TypeError))
      else Inr (ps, k))"
  by pat_completeness auto
termination
  by (relation "measure (\<lambda>(rnd, targetPoints, i, ps, k). length ps - i)") auto

definition morphToFrame :: "env \<Rightarrow> (nat \<Rightarrow> real) \<Rightarrow> int \<Rightarrow> editor \<Rightarrow> js_error + editor" where
  "morphToFrame e rnd targetIndex s =
     (if isMorphing s then Inr s
      else if targetIndex = currentFrameIndex s then Inr s
      else if targetIndex < 0 \<or> targetIndex \<ge> int (length (frames s)) then Inr s
      else (let targetFrame = frames s ! nat targetIndex;
                targetPoints = points targetFrame;
                existingCount = length (particles s);
                targetCount = length targetPoints;
                cleared = map (\<lambda>p. p\<lparr> markedForRemoval := False \<rparr>) (particles s)
            in case spawn e rnd existingCount targetCount cleared (randomCalls s) of
                 Inl err \<Rightarrow> Inl err
               | Inr (ps, k) \<Rightarrow>
                   (case setTargets rnd targetPoints 0 ps k of
                      Inl err \<Rightarrow> Inl err
                    | Inr (ps', k') \<Rightarrow>
                        Inr (s\<lparr> particles := ps', randomCalls := k',
                                isMorphing := True, morphProgress := 0,
                                currentFrameIndex := targetIndex \<rparr>))))"

definition morphToNextFrame :: "env \<Rightarrow> (nat \<Rightarrow> real) \<Rightarrow> editor \<Rightarrow> js_error + editor" where
  "morphToNextFrame e rnd s =
     (if length (frames s) < 2 then Inr s
      else morphToFrame e rnd ((currentFrameIndex s + 1) mod int (length (frames s))) s)"

definition morphToPrevFrame :: "env \<Rightarrow> (nat \<Rightarrow> real) \<Rightarrow> editor \<Rightarrow> js_error + editor" where
  "morphToPrevFrame e rnd s =
     (if length (frames s) < 2 then Inr s
      else morphToFrame e rnd
             ((currentFrameIndex s - 1 + int (length (frames s))) mod int (length (frames s))) s)"

subsection \<open>Render loop\<close>




section \<open>Frame import of the editor\<close>

text \<open>
  Parsed interchange data. A point carries \<open>x\<close> and \<open>y\<close>; \<open>z\<close>, the editor's own \<open>baseZ\<close> and
  the colour channels may be absent. A frame may lack its name or its point list. A payload
  is what \<open>JSON.parse\<close> returns: an object, with optional \<open>version\<close> (a string where
  present), \<open>frame\<close> and \<open>frames\<close> (an array where present); an array of frames; a number,
  string or boolean (\<open>JPrimitive\<close>); or \<open>null\<close>. Text that is not JSON makes \<open>JSON.parse\<close>
  throw and never becomes a payload.
\<close>

record jpoint =
  j_x :: real
  j_y :: real
  j_z :: "real option"
  j_baseZ :: "real option"
  j_r :: "int option"
  j_g :: "int option"
  j_b :: "int option"

record jframe =
  j_name :: "string option"
  j_points :: "jpoint list option"

datatype payload =
  JObject (j_version: "string option") (j_frame: "jframe option") (j_frames: "jframe list option")
| JArray "jframe list"
| JPrimitive
| JNull

text \<open>The three alerts of \<open>handleFrameImport\<close>.\<close>

datatype alert = MissingVersion | NoFrameData | FailedToImport

text \<open>Decimal digits of a number, for \<open>'Imported Frame ' + (frames.length + 1)\<close>.\<close>

fun show_nat :: "nat \<Rightarrow> string" where
  "show_nat n =
     (if n < 10 then [char_of (48 + n)]
      else show_nat (n div 10) @ [char_of (48 + n mod 10)])"

text \<open>A string is falsy when it is absent or empty.\<close>

definition str_or_else :: "string option \<Rightarrow> string \<Rightarrow> string" where
  "str_or_else v d = (case v of None \<Rightarrow> d | Some t \<Rightarrow> if t = [] then d else t)"

definition importPoint :: "jpoint \<Rightarrow> fpoint" where
  "importPoint p =
     \<lparr> pt_targetX = j_x p, pt_targetY = j_y p, pt_baseZ = or_else (j_z p) 0,
       pt_r = j_r p, pt_g = j_g p, pt_b = j_b p \<rparr>"

text \<open>\<open>importSingleFrame\<close>: \<open>frameData.points.map\<close> throws when the point list is absent.\<close>

definition importSingleFrame :: "jframe \<Rightarrow> frame list \<Rightarrow> js_error + frame list" where
  "importSingleFrame frameData fs =
     (case j_points frameData of
        None \<Rightarrow> Inl TypeError
      | Some ps \<Rightarrow>
          (let pts = map importPoint ps
           in Inr (fs @ [\<lparr> name = str_or_else (j_name frameData)
                                  (''Imported Frame '' @ show_nat (length fs + 1)),
                          points = pts, pointCount = length pts \<rparr>])))"

text \<open>
  \<open>data.frames.forEach(frame => importSingleFrame(frame))\<close>: the frames imported before a
  throwing one stay in the store.
\<close>

fun importEach :: "jframe list \<Rightarrow> frame list \<Rightarrow> frame list \<times> bool" where
  "importEach [] fs = (fs, False)"
| "importEach (f # rest) fs =
     (case importSingleFrame f fs of
        Inl err \<Rightarrow> (fs, True)
      | Inr fs' \<Rightarrow> importEach rest fs')"

text \<open>
  The body of \<open>reader.onload\<close> in \<open>handleFrameImport\<close>, on the parsed data: the frame store
  after it and the alert shown, if any. An exception of the import is caught and alerted;
  \<open>data.version\<close> throws when \<open>data\<close> is \<open>null\<close> and is \<open>undefined\<close> on an array, a number, a string
  or a boolean.
\<close>

definition handleFrameImport :: "payload \<Rightarrow> frame list \<Rightarrow> frame list \<times> alert option" where
  "handleFrameImport data fs =
     (case data of
        JNull \<Rightarrow> (fs, Some FailedToImport)
      | JPrimitive \<Rightarrow> (fs, Some MissingVersion)
      | JArray arr \<Rightarrow> (fs, Some MissingVersion)
      | JObject version fr frs \<Rightarrow>
          if version = None \<or> version = Some [] then (fs, Some MissingVersion)
          else (case fr of
                  Some f \<Rightarrow>
                    (case importSingleFrame f fs of
                       Inl err \<Rightarrow> (fs, Some FailedToImport)
                     | Inr fs' \<Rightarrow> (fs', None))
                | None \<Rightarrow>
                    (case frs of
                       Some arr \<Rightarrow>
                         (case importEach arr fs of
                            (fs', threw) \<Rightarrow> (fs', if threw then Some FailedToImport else None))
                     | None \<Rightarrow> (fs, Some NoFrameData))))"

section \<open>Fill-mode sampling of the editor\<close>

text \<open>
  The pixel buffer of \<open>getImageData\<close>: width, height and the RGBA bytes, row by row.
\<close>

record imageData =
  img_width :: nat
  img_height :: nat
  img_data :: "nat list"

record rgba =
  px_r :: "nat option"
  px_g :: "nat option"
  px_b :: "nat option"
  px_alpha :: "nat option"

text \<open>Reading a typed array beyond its end gives \<open>undefined\<close>.\<close>

definition at_index :: "nat list \<Rightarrow> nat \<Rightarrow> nat option" where
  "at_index xs i = (if i < length xs then Some (xs ! i) else None)"

definition getPixelColor :: "imageData \<Rightarrow> int \<Rightarrow> int \<Rightarrow> rgba option" where
  "getPixelColor img x y =
     (if x < 0 \<or> x \<ge> int (img_width img) \<or> y < 0 \<or> y \<ge> int (img_height img) then None
      else (let index = (nat y * img_width img + nat x) * 4
            in Some \<lparr> px_r = at_index (img_data img) index,
                      px_g = at_index (img_data img) (index + 1),
                      px_b = at_index (img_data img) (index + 2),
                      px_alpha = at_index (img_data img) (index + 3) \<rparr>))"

text \<open>\<open>c > 128\<close>, false for \<open>undefined\<close>.\<close>

definition above128 :: "nat option \<Rightarrow> bool" where
  "above128 c = (case c of None \<Rightarrow> False | Some v \<Rightarrow> v > 128)"

definition isWhite :: "imageData \<Rightarrow> int \<Rightarrow> int \<Rightarrow> bool" where
  "isWhite img x y =
     (case getPixelColor img x y of
        None \<Rightarrow> False
      | Some color \<Rightarrow>
          (above128 (px_r color) \<or> above128 (px_g color) \<or> above128 (px_b color))
          \<and> above128 (px_alpha color))"

record spoint =
  sp_x :: real
  sp_y :: real
  sp_r :: "nat option"
  sp_g :: "nat option"
  sp_b :: "nat option"

definition samplePoint :: "imageData \<Rightarrow> real \<Rightarrow> nat \<Rightarrow> nat \<Rightarrow> spoint" where
  "samplePoint img sampleScale x y =
     (case getPixelColor img (int x) (int y) of
        Some color \<Rightarrow> \<lparr> sp_x = real x / sampleScale, sp_y = real y / sampleScale,
                        sp_r = px_r color, sp_g = px_g color, sp_b = px_b color \<rparr>
      | None \<Rightarrow> \<lparr> sp_x = real x / sampleScale, sp_y = real y / sampleScale,
                   sp_r = Some 74, sp_g = Some 222, sp_b = Some 128 \<rparr>)"

text \<open>
  The two loops of the fill mode of \<open>processSampling\<close>,
  \<open>for (y = 0; y < height; y += step) for (x = 0; x < width; x += step)\<close>. With \<open>step = 0\<close>
  they do not terminate: the loops are partial functions, \<open>None\<close> when they run forever.
\<close>

partial_function (option) fillRow ::
  "imageData \<Rightarrow> real \<Rightarrow> nat \<Rightarrow> nat \<Rightarrow> nat \<Rightarrow> spoint list \<Rightarrow> spoint list option" where
  "fillRow img sampleScale step y x pts =
     (if x < img_width img
      then fillRow img sampleScale step y (x + step)
             (if isWhite img (int x) (int y) then pts @ [samplePoint img sampleScale x y] else pts)
      else Some pts)"

partial_function (option) fillRows ::
  "imageData \<Rightarrow> real \<Rightarrow> nat \<Rightarrow> nat \<Rightarrow> spoint list \<Rightarrow> spoint list option" where
  "fillRows img sampleScale step y pts =
     (if y < img_height img
      then Option.bind (fillRow img sampleScale step y 0 pts)
             (\<lambda>pts'. fillRows img sampleScale step (y + step) pts')
      else Some pts)"

declare fillRow.simps [code] fillRows.simps [code]

text \<open>The points that \<open>processSampling\<close> extracts in fill mode (\<open>svgPoints\<close>).\<close>

definition processSampling_fill :: "imageData \<Rightarrow> real \<Rightarrow> nat \<Rightarrow> spoint list option" where
  "processSampling_fill img sampleScale step = fillRows img sampleScale step 0 []"


section \<open>Particles from sampled points\<close>





section \<open>The embeddable renderer (particle-renderer.js)\<close>

record rparticle =
  r_baseX :: real
  r_baseY :: real
  r_baseZ :: real
  r_x :: real
  r_y :: real
  r_z :: real
  r_r :: int
  r_g :: int
  r_b :: int
  r_size :: real
  r_opacity :: real
  r_morphStartX :: real
  r_morphStartY :: real
  r_morphStartZ :: real
  r_morphTargetX :: real
  r_morphTargetY :: real
  r_morphTargetZ :: real
  r_morphStartR :: int
  r_morphStartG :: int
  r_morphStartB :: int
  r_morphTargetR :: int
  r_morphTargetG :: int
  r_morphTargetB :: int
  r_remove :: bool

record npoint =
  np_x :: real
  np_y :: real
  np_z :: real
  np_r :: int
  np_g :: int
  np_b :: int

record nframe =
  nf_name :: string
  nf_points :: "npoint list"

text \<open>The options that the engine reads (\<open>backgroundColor\<close> and \<open>hoverMax\<close> are left out).\<close>

record options =
  opt_autoRotate :: bool
  opt_rotateSpeed :: real
  opt_rotateX :: real
  opt_rotateY :: real
  opt_rotateZ :: real
  opt_particleSize :: real
  opt_depthFog :: bool
  opt_perspective :: bool
  opt_focalLength :: real
  opt_morphSpeed :: real
  opt_scale :: real
  opt_centerX :: "real option"
  opt_centerY :: "real option"
  opt_hoverRotate :: bool

record renderer =
  r_canvas_width :: real
  r_canvas_height :: real
  r_particles :: "rparticle list"
  r_frames :: "nframe list"
  currentFrame :: int
  running :: bool
  r_animTime :: nat
  r_options :: options
  morphing :: bool
  r_morphProgress :: real
  r_staticRotX :: real
  r_staticRotY :: real
  r_staticRotZ :: real
  r_randomCalls :: nat

text \<open>\<open>this.options.centerX ?? this.canvas.width / 2\<close>, and the same for y.\<close>

definition r_centerX :: "renderer \<Rightarrow> real" where
  "r_centerX s = (case opt_centerX (r_options s) of Some c \<Rightarrow> c | None \<Rightarrow> r_canvas_width s / 2)"

definition r_centerY :: "renderer \<Rightarrow> real" where
  "r_centerY s = (case opt_centerY (r_options s) of Some c \<Rightarrow> c | None \<Rightarrow> r_canvas_height s / 2)"

text \<open>
  \<open>_normalizeFrame\<close>. The fallback \<open>p.x ?? p.targetX\<close> is not modelled: a point of the
  interchange data carries \<open>x\<close> and \<open>y\<close>. \<open>frame.points.map\<close> throws when the point list is
  absent.
\<close>

definition normalizePoint :: "jpoint \<Rightarrow> npoint" where
  "normalizePoint p =
     \<lparr> np_x = j_x p, np_y = j_y p,
       np_z = (case j_z p of Some z \<Rightarrow> z
               | None \<Rightarrow> (case j_baseZ p of Some z \<Rightarrow> z | None \<Rightarrow> 0)),
       np_r = (case j_r p of Some c \<Rightarrow> c | None \<Rightarrow> 74),
       np_g = (case j_g p of Some c \<Rightarrow> c | None \<Rightarrow> 222),
       np_b = (case j_b p of Some c \<Rightarrow> c | None \<Rightarrow> 128) \<rparr>"

definition normalizeFrame :: "jframe \<Rightarrow> js_error + nframe" where
  "normalizeFrame fr =
     (case j_points fr of
        None \<Rightarrow> Inl TypeError
      | Some ps \<Rightarrow> Inr \<lparr> nf_name = str_or_else (j_name fr) ''Frame'',
                         nf_points = map normalizePoint ps \<rparr>)"

fun normalizeFrames :: "jframe list \<Rightarrow> js_error + nframe list" where
  "normalizeFrames [] = Inr []"
| "normalizeFrames (f # rest) =
     (case normalizeFrame f of
        Inl err \<Rightarrow> Inl err
      | Inr nf \<Rightarrow> (case normalizeFrames rest of Inl err \<Rightarrow> Inl err | Inr nfs \<Rightarrow> Inr (nf # nfs)))"

text \<open>
  The centre of a frame, \<open>pts.reduce((s, p) => s + p.x, 0) / pts.length\<close>. For an empty
  frame JavaScript computes \<open>NaN\<close> here and HOL 0; the value is then used for no point.
\<close>

definition frameCenterX :: "npoint list \<Rightarrow> real" where
  "frameCenterX pts = foldl (\<lambda>s p. s + np_x p) 0 pts / real (length pts)"

definition frameCenterY :: "npoint list \<Rightarrow> real" where
  "frameCenterY pts = foldl (\<lambda>s p. s + np_y p) 0 pts / real (length pts)"

definition loadParticle :: "renderer \<Rightarrow> real \<Rightarrow> real \<Rightarrow> npoint \<Rightarrow> rparticle" where
  "loadParticle s fcx fcy p =
     \<lparr> r_baseX = r_centerX s + (np_x p - fcx) * opt_scale (r_options s),
       r_baseY = r_centerY s + (np_y p - fcy) * opt_scale (r_options s),
       r_baseZ = np_z p * opt_scale (r_options s),
       r_x = 0, r_y = 0, r_z = 0,
       r_r = np_r p, r_g = np_g p, r_b = np_b p,
       r_size = opt_particleSize (r_options s),
       r_opacity = 1,
       r_morphStartX = 0, r_morphStartY = 0, r_morphStartZ = 0,
       r_morphTargetX = 0, r_morphTargetY = 0, r_morphTargetZ = 0,
       r_morphStartR = np_r p, r_morphStartG = np_g p, r_morphStartB = np_b p,
       r_morphTargetR = np_r p, r_morphTargetG = np_g p, r_morphTargetB = np_b p,
       r_remove = False \<rparr>"

definition loadFrame :: "int \<Rightarrow> renderer \<Rightarrow> renderer" where
  "loadFrame index s =
     (if index < 0 \<or> index \<ge> int (length (r_frames s)) then s
      else (let pts = nf_points (r_frames s ! nat index);
                fcx = frameCenterX pts;
                fcy = frameCenterY pts
            in s\<lparr> r_particles := map (loadParticle s fcx fcy) pts, currentFrame := index \<rparr>))"

text \<open>
  \<open>loadFrames\<close> on an object already in memory (a string source is fetched and parsed
  first). No version is looked at. The store is replaced, not appended to. \<open>data.frame\<close>
  throws when \<open>data\<close> is \<open>null\<close>; a number, a string or a boolean has neither \<open>frame\<close> nor
  \<open>frames\<close> and is no array.
\<close>

definition loadFrames :: "payload \<Rightarrow> renderer \<Rightarrow> js_error + renderer" where
  "loadFrames data s =
     (let loaded =
            (case data of
               JObject version fr frs \<Rightarrow>
                 (case fr of
                    Some f \<Rightarrow>
                      (case normalizeFrame f of
                         Inl err \<Rightarrow> Inl err
                       | Inr nf \<Rightarrow> Inr (s\<lparr> r_frames := [nf] \<rparr>))
                  | None \<Rightarrow>
                      (case frs of
                         Some arr \<Rightarrow>
                           (case normalizeFrames arr of
                              Inl err \<Rightarrow> Inl err
                            | Inr nfs \<Rightarrow> Inr (s\<lparr> r_frames := nfs \<rparr>))
                       | None \<Rightarrow> Inr s))
             | JArray arr \<Rightarrow>
                 (case normalizeFrames arr of
                    Inl err \<Rightarrow> Inl err
                  | Inr nfs \<Rightarrow> Inr (s\<lparr> r_frames := nfs \<rparr>))
             | JPrimitive \<Rightarrow> Inr s
             | JNull \<Rightarrow> Inl TypeError)
      in case loaded of
           Inl err \<Rightarrow> Inl err
         | Inr s' \<Rightarrow> Inr (if length (r_frames s') > 0 then loadFrame 0 s' else s'))"

text \<open>The spawn loop of \<open>_morphTo\<close>: the random index is below the current length.\<close>

definition cloneParticle :: "renderer \<Rightarrow> rparticle \<Rightarrow> rparticle" where
  "cloneParticle s src =
     \<lparr> r_baseX = r_baseX src, r_baseY = r_baseY src, r_baseZ = r_baseZ src,
       r_x = 0, r_y = 0, r_z = 0,
       r_r = r_r src, r_g = r_g src, r_b = r_b src,
       r_size = opt_particleSize (r_options s), r_opacity = 1,
       r_morphStartX = 0, r_morphStartY = 0, r_morphStartZ = 0,
       r_morphTargetX = 0, r_morphTargetY = 0, r_morphTargetZ = 0,
       r_morphStartR = r_r src, r_morphStartG = r_g src, r_morphStartB = r_b src,
       r_morphTargetR = r_r src, r_morphTargetG = r_g src, r_morphTargetB = r_b src,
       r_remove = False \<rparr>"

function r_spawn ::
  "renderer \<Rightarrow> (nat \<Rightarrow> real) \<Rightarrow> nat \<Rightarrow> rparticle list \<Rightarrow> nat \<Rightarrow> js_error + rparticle list \<times> nat" where
  "r_spawn s rnd targetCount ps k =
     (if length ps < targetCount
      then (let i = \<lfloor>rnd k * real (length ps)\<rfloor>
            in if 0 \<le> i \<and> nat i < length ps
               then r_spawn s rnd targetCount (ps @ [cloneParticle s (ps ! nat i)]) (k + 1)
               else Inl TypeError)
      else Inr (ps, k))"
  by pat_completeness auto
termination
  by (relation "measure (\<lambda>(s, rnd, targetCount, ps, k). targetCount - length ps)") auto

definition r_setTarget :: "npoint \<Rightarrow> bool \<Rightarrow> rparticle \<Rightarrow> rparticle" where
  "r_setTarget t rem p =
     p\<lparr> r_morphStartX := r_baseX p, r_morphStartY := r_baseY p, r_morphStartZ := r_baseZ p,
        r_morphStartR := r_r p, r_morphStartG := r_g p, r_morphStartB := r_b p,
        r_morphTargetX := np_x t, r_morphTargetY := np_y t, r_morphTargetZ := np_z t,
        r_morphTargetR := np_r t, r_morphTargetG := np_g t, r_morphTargetB := np_b t,
        r_remove := rem \<rparr>"

function r_setTargets ::
  "(nat \<Rightarrow> real) \<Rightarrow> npoint list \<Rightarrow> nat \<Rightarrow> rparticle list \<Rightarrow> nat \<Rightarrow> js_error + rparticle list \<times> nat" where
  "r_setTargets rnd targetPoints i ps k =
     (if i < length ps
      then (if i < length targetPoints
            then r_setTargets rnd targetPoints (i + 1)
                   (ps[i := r_setTarget (targetPoints ! i) False (ps ! i)]) k
            else (let j = \<lfloor>rnd k * real (length targetPoints)\<rfloor>
                  in if 0 \<le> j \<and> nat j < length targetPoints
                     then r_setTargets rnd targetPoints (i + 1)
                            (ps[i := r_setTarget (targetPoints ! nat j) True (ps ! i)]) (k + 1)
                     else Inl TypeError))
      else Inr (ps, k))"
  by pat_completeness auto
termination
  by (relation "measure (\<lambda>(rnd, targetPoints, i, ps, k). length ps - i)") auto

definition targetPoint :: "renderer \<Rightarrow> real \<Rightarrow> real \<Rightarrow> npoint \<Rightarrow> npoint" where
  "targetPoint s fcx fcy p =
     \<lparr> np_x = r_centerX s + (np_x p - fcx) * opt_scale (r_options s),
       np_y = r_centerY s + (np_y p - fcy) * opt_scale (r_options s),
       np_z = np_z p * opt_scale (r_options s),
       np_r = np_r p, np_g = np_g p, np_b = np_b p \<rparr>"

text \<open>\<open>_morphTo\<close>; \<open>targetFrame.points\<close> throws when there is no frame at the index.\<close>

definition morphTo :: "(nat \<Rightarrow> real) \<Rightarrow> int \<Rightarrow> renderer \<Rightarrow> js_error + renderer" where
  "morphTo rnd targetIndex s =
     (if targetIndex < 0 \<or> targetIndex \<ge> int (length (r_frames s)) then Inl TypeError
      else (let pts = nf_points (r_frames s ! nat targetIndex);
                fcx = frameCenterX pts;
                fcy = frameCenterY pts;
                targetPoints = map (targetPoint s fcx fcy) pts
            in case r_spawn s rnd (length targetPoints) (r_particles s) (r_randomCalls s) of
                 Inl err \<Rightarrow> Inl err
               | Inr (ps, k) \<Rightarrow>
                   (case r_setTargets rnd targetPoints 0 ps k of
                      Inl err \<Rightarrow> Inl err
                    | Inr (ps', k') \<Rightarrow>
                        Inr (s\<lparr> r_particles := ps', r_randomCalls := k',
                                morphing := True, r_morphProgress := 0,
                                currentFrame := targetIndex \<rparr>))))"

definition goTo :: "(nat \<Rightarrow> real) \<Rightarrow> int \<Rightarrow> renderer \<Rightarrow> js_error + renderer" where
  "goTo rnd index s =
     (if index < 0 \<or> index \<ge> int (length (r_frames s)) \<or> morphing s then Inr s
      else if index = currentFrame s then Inr s
      else morphTo rnd index s)"

definition r_next :: "(nat \<Rightarrow> real) \<Rightarrow> renderer \<Rightarrow> js_error + renderer" where
  "r_next rnd s =
     (if length (r_frames s) < 2 \<or> morphing s then Inr s
      else morphTo rnd ((currentFrame s + 1) mod int (length (r_frames s))) s)"

definition r_prev :: "(nat \<Rightarrow> real) \<Rightarrow> renderer \<Rightarrow> js_error + renderer" where
  "r_prev rnd s =
     (if length (r_frames s) < 2 \<or> morphing s then Inr s
      else morphTo rnd
             ((currentFrame s - 1 + int (length (r_frames s))) mod int (length (r_frames s))) s)"





text \<open>The opacity with which \<open>_animate\<close> draws a particle of depth \<open>z\<close>.\<close>

definition r_drawOpacity :: "bool \<Rightarrow> real \<Rightarrow> real \<Rightarrow> real" where
  "r_drawOpacity depthFog z maxZ =
     (if depthFog \<and> maxZ > 0
      then (let nz = (z + maxZ) / (2 * maxZ) in max 0.1 (0.2 + nz * nz * 0.8))
      else 1)"


section \<open>Initial states and the scenarios of the specification\<close>

text \<open>
  The global variables of main.js as they are initialised. The literal \<open>0.02\<close> denotes the
  double nearest to 2/100.
\<close>

definition initialEditor :: editor where
  "initialEditor =
     \<lparr> particles = [], frames = [], currentFrameIndex = 0, isMorphing = False,
       morphProgress = 0, morphSpeed = fl 0.02, animTime = 0, randomCalls = 0 \<rparr>"

text \<open>An 800 by 600 canvas with the rotation sliders at zero.\<close>

definition plainEnv :: env where
  "plainEnv =
     \<lparr> canvas_width = 800, canvas_height = 600, rotationCenterX = 400, rotationCenterY = 300,
       speed = 1, rotX = 0, rotY = 0, rotZ = 0, animationEnabled = True,
       staticRotX = 0, staticRotY = 0, staticRotZ = 0 \<rparr>"

text \<open>The defaults of the constructor of \<open>ParticleRenderer\<close>, on a canvas of the given size.\<close>

definition defaultOptions :: options where
  "defaultOptions =
     \<lparr> opt_autoRotate = True, opt_rotateSpeed = 0.5, opt_rotateX = 0, opt_rotateY = 30,
       opt_rotateZ = 0, opt_particleSize = 2, opt_depthFog = True, opt_perspective = True,
       opt_focalLength = 800, opt_morphSpeed = fl 0.02, opt_scale = 1,
       opt_centerX = None, opt_centerY = None, opt_hoverRotate = False \<rparr>"

definition newRenderer :: "real \<Rightarrow> real \<Rightarrow> renderer" where
  "newRenderer w h =
     \<lparr> r_canvas_width = w, r_canvas_height = h, r_particles = [], r_frames = [],
       currentFrame = 0, running = False, r_animTime = 0, r_options = defaultOptions,
       morphing = False, r_morphProgress = 0,
       r_staticRotX = 0, r_staticRotY = 0, r_staticRotZ = 0, r_randomCalls = 0 \<rparr>"

text \<open>Scenario B: \<open>{"version":"1.0","frame":{"name":"X","points":[{"x":1,"y":1}]}}\<close>.\<close>

definition barePoint :: "real \<Rightarrow> real \<Rightarrow> jpoint" where
  "barePoint x y =
     \<lparr> j_x = x, j_y = y, j_z = None, j_baseZ = None, j_r = None, j_g = None, j_b = None \<rparr>"

definition scenarioB :: payload where
  "scenarioB =
     JObject (Some ''1.0'')
       (Some \<lparr> j_name = Some ''X'', j_points = Some [barePoint 1 1] \<rparr>) None"



text \<open>
  Following the words of the specification: \<open>clamp(lo, v, hi)\<close> and the depth-fog opacity
  target \<open>clamp(0.05, 0.15 + easeQuadratic(normalizedDepth) \<times> 0.85, 1)\<close>.
\<close>

definition clamp :: "real \<Rightarrow> real \<Rightarrow> real \<Rightarrow> real" where
  "clamp lo v hi = max lo (min hi v)"

definition spec_fogOpacity :: "real \<Rightarrow> real \<Rightarrow> real" where
  "spec_fogOpacity currentDepth maxAbsDepth' =
     (let normalizedDepth = (currentDepth + maxAbsDepth') / (2 * maxAbsDepth')
      in clamp 0.05 (0.15 + normalizedDepth * normalizedDepth * 0.85) 1)"





















text \<open>Frames and frame points with every field present, and a particle anchored at a point.\<close>

definition fullPoint :: "real \<Rightarrow> real \<Rightarrow> real \<Rightarrow> int \<Rightarrow> int \<Rightarrow> int \<Rightarrow> fpoint" where
  "fullPoint x y z r g b =
     \<lparr> pt_targetX = x, pt_targetY = y, pt_baseZ = z, pt_r = Some r, pt_g = Some g, pt_b = Some b \<rparr>"

definition frameOf :: "string \<Rightarrow> fpoint list \<Rightarrow> frame" where
  "frameOf n pts = \<lparr> name = n, points = pts, pointCount = length pts \<rparr>"

definition anchored :: "real \<Rightarrow> real \<Rightarrow> particle" where
  "anchored x y = fst (Particle plainEnv (\<lambda>k. 0) 0 (Some x) (Some y) (Some x) (Some y) None)"

text \<open>
  Scenario C: three particles, and a store whose second frame has the single point
  \<open>(10, 10, 0)\<close> of colour \<open>(4, 5, 6)\<close>.
\<close>

definition scenarioC :: editor where
  "scenarioC =
     initialEditor
       \<lparr> particles := [anchored 100 100, anchored 200 100, anchored 150 200],
         frames := [frameOf ''Frame 1'' [fullPoint 100 100 0 1 2 3, fullPoint 200 100 0 1 2 3,
                                         fullPoint 150 200 0 1 2 3],
                    frameOf ''Frame 2'' [fullPoint 10 10 0 4 5 6]] \<rparr>"





text \<open>
  A renderer that holds the frame of scenario B; the same running and idle; and the same one
  tick before the end of a morph in which one particle goes to the point \<open>(10, 20, 30)\<close> of
  colour \<open>(4, 5, 6)\<close> and a second one goes there to be removed.
\<close>

definition dot :: npoint where
  "dot = \<lparr> np_x = 1, np_y = 1, np_z = 0, np_r = 74, np_g = 222, np_b = 128 \<rparr>"





text \<open>
  The editor after its particles were cleared, with two saved frames; interchange data of
  one frame without points; and interchange data of two frames, the first without points.
\<close>

definition clearedEditor :: editor where
  "clearedEditor =
     initialEditor
       \<lparr> frames := [frameOf ''Frame 1'' [fullPoint 0 0 0 1 2 3],
                    frameOf ''Frame 2'' [fullPoint 10 10 0 4 5 6]],
         currentFrameIndex := 1 \<rparr>"

definition emptyFrame :: payload where
  "emptyFrame = JObject (Some ''1.0'') (Some \<lparr> j_name = Some ''Empty'', j_points = Some [] \<rparr>) None"

definition emptyFirstFrame :: payload where
  "emptyFirstFrame =
     JObject (Some ''1.0'') None
       (Some [\<lparr> j_name = Some ''Empty'', j_points = Some [] \<rparr>,
              \<lparr> j_name = Some ''Dot'', j_points = Some [barePoint 1 1] \<rparr>])"

text \<open>
  For the analysis of the fill mode: the positions \<open>x, x + step, x + 2 step, ...\<close> below a
  bound, which the loops visit when \<open>step\<close> is positive, and the grid coordinates at which
  a point is emitted.
\<close>

function strideFrom :: "nat \<Rightarrow> nat \<Rightarrow> nat \<Rightarrow> nat list" where
  "strideFrom step bound x =
     (if step = 0 \<or> bound \<le> x then [] else x # strideFrom step bound (x + step))"
  by pat_completeness auto
termination
  by (relation "measure (\<lambda>(step, bound, x). bound - x)") auto

definition sampledCoords :: "imageData \<Rightarrow> nat \<Rightarrow> (nat \<times> nat) list" where
  "sampledCoords img step =
     concat (map (\<lambda>y. map (\<lambda>x. (x, y))
                        (filter (\<lambda>x. isWhite img (int x) (int y)) (strideFrom step (img_width img) 0)))
               (strideFrom step (img_height img) 0))"

text \<open>
  A source of four pixels in one row, of which only the last one, at \<open>x = 3\<close>, is visible.
\<close>

definition lastPixelImage :: imageData where
  "lastPixelImage =
     \<lparr> img_width = 4, img_height = 1,
       img_data = [0, 0, 0, 0,  0, 0, 0, 0,  0, 0, 0, 0,  255, 255, 255, 255] \<rparr>"

section \<open>Rounding to the nearest double\<close>




























section \<open>Rotation round trip\<close>

lemma transform_X_only:
  "transform cx cy (a, 0, 0) (x, y, z) =
     (x, (y - cy) * cos a - z * sin a + cy, (y - cy) * sin a + z * cos a)"
  by (cases "a = 0") (simp_all add: transform_def Let_def)

lemma transform_Y_only:
  "transform cx cy (0, a, 0) (x, y, z) =
     ((x - cx) * cos a + z * sin a + cx, y, - (x - cx) * sin a + z * cos a)"
  by (cases "a = 0") (simp_all add: transform_def Let_def)

lemma transform_Z_only:
  "transform cx cy (0, 0, a) (x, y, z) =
     ((x - cx) * cos a - (y - cy) * sin a + cx, (x - cx) * sin a + (y - cy) * cos a + cy, z)"
  by (cases "a = 0") (simp_all add: transform_def Let_def)

lemma transform_split:
  "transform cx cy (a, b, c) p =
     transform cx cy (0, 0, c) (transform cx cy (0, b, 0) (transform cx cy (a, 0, 0) p))"
  by (cases p; cases "a = 0"; cases "b = 0"; cases "c = 0") (simp_all add: transform_def Let_def)

lemma sc_cancel1: "(u * cos a - v * sin a) * cos a + (u * sin a + v * cos a) * sin a = (u::real)"
proof -
  have "u * (cos a * cos a) + u * (sin a * sin a) = u"
    by (simp only: distrib_left [symmetric] sin_cos_squared_add3 mult_1_right)
  then show ?thesis by (simp add: algebra_simps)
qed

lemma sc_cancel2: "(u * sin a + v * cos a) * cos a - (u * cos a - v * sin a) * sin a = (v::real)"
proof -
  have "v * (cos a * cos a) + v * (sin a * sin a) = v"
    by (simp only: distrib_left [symmetric] sin_cos_squared_add3 mult_1_right)
  then show ?thesis by (simp add: algebra_simps)
qed

lemma undo_X: "transform cx cy (- a, 0, 0) (transform cx cy (a, 0, 0) p) = p"
proof (cases p)
  case (fields x y z)
  have "((y - cy) * cos a - z * sin a) * cos a + ((y - cy) * sin a + z * cos a) * sin a = y - cy"
    by (rule sc_cancel1)
  moreover have "((y - cy) * sin a + z * cos a) * cos a - ((y - cy) * cos a - z * sin a) * sin a = z"
    by (rule sc_cancel2)
  ultimately show ?thesis
    unfolding fields transform_X_only by simp
qed

lemma undo_Y: "transform cx cy (0, - a, 0) (transform cx cy (0, a, 0) p) = p"
proof (cases p)
  case (fields x y z)
  have "(z * cos a - (x - cx) * sin a) * cos a + (z * sin a + (x - cx) * cos a) * sin a = z"
    by (rule sc_cancel1)
  moreover have "(z * sin a + (x - cx) * cos a) * cos a - (z * cos a - (x - cx) * sin a) * sin a = x - cx"
    by (rule sc_cancel2)
  ultimately show ?thesis
    unfolding fields transform_Y_only by (simp add: algebra_simps)
qed

lemma undo_Z: "transform cx cy (0, 0, - a) (transform cx cy (0, 0, a) p) = p"
proof (cases p)
  case (fields x y z)
  have "((x - cx) * cos a - (y - cy) * sin a) * cos a + ((x - cx) * sin a + (y - cy) * cos a) * sin a
        = x - cx"
    by (rule sc_cancel1)
  moreover have "((x - cx) * sin a + (y - cy) * cos a) * cos a - ((x - cx) * cos a - (y - cy) * sin a) * sin a
        = y - cy"
    by (rule sc_cancel2)
  ultimately show ?thesis
    unfolding fields transform_Z_only by simp
qed

text \<open>
  C4. The claim as stated: a second application with the angles \<open>(-\<gamma>, -\<beta>, -\<alpha>)\<close>, in the
  fixed order X, Y, Z, restores the position. It fails already for a quarter turn about X:
  the particle at \<open>(0, 1, 0)\<close> goes to \<open>(0, 0, 1)\<close>, and the second application, a turn by
  \<open>-\<pi>/2\<close> about Z, leaves it there.
\<close>

theorem rotation_round_trip_counterexample:
  "transform 0 0 (- 0, - 0, - (pi / 2)) (transform 0 0 (pi / 2, 0, 0) (0, 1, 0)) \<noteq> (0, 1, 0)"
  by (simp add: transform_def)

text \<open>
  C4 (amended). Undoing the three axis rotations one by one in the reverse order, that is
  applying the transform with \<open>(0, 0, -\<gamma>)\<close>, then \<open>(0, -\<beta>, 0)\<close>, then \<open>(-\<alpha>, 0, 0)\<close>, restores
  every position about every centre, exactly over the reals.
\<close>

theorem rotation_round_trip_reversed:
  "transform cx cy (- \<alpha>, 0, 0)
     (transform cx cy (0, - \<beta>, 0)
       (transform cx cy (0, 0, - \<gamma>)
         (transform cx cy (\<alpha>, \<beta>, \<gamma>) p))) = p"
  by (simp only: transform_split [of cx cy \<alpha> \<beta> \<gamma>] undo_Z undo_Y undo_X)

section \<open>Depth fog\<close>

text \<open>
  The \<open>maxZ\<close> of a tick is at least 1 and bounds the absolute depth of every particle, so
  the normalised depth lies in \<open>[0, 1]\<close> and the fog term of the editor never exceeds 1.
\<close>

lemma fold_maxAbs_ge:
  "m \<le> fold (\<lambda>z maxZ. if \<bar>z\<bar> > maxZ then \<bar>z\<bar> else maxZ) zs (m::real)"
proof (induction zs arbitrary: m)
  case Nil
  show ?case by simp
next
  case (Cons z zs)
  have "m \<le> (if \<bar>z\<bar> > m then \<bar>z\<bar> else m)" by simp
  also have "\<dots> \<le> fold (\<lambda>z maxZ. if \<bar>z\<bar> > maxZ then \<bar>z\<bar> else maxZ) zs (if \<bar>z\<bar> > m then \<bar>z\<bar> else m)"
    by (rule Cons.IH)
  finally show ?case by simp
qed

lemma fold_maxAbs_bound:
  "z \<in> set zs \<Longrightarrow> \<bar>z\<bar> \<le> fold (\<lambda>z maxZ. if \<bar>z\<bar> > maxZ then \<bar>z\<bar> else maxZ) zs (m::real)"
proof (induction zs arbitrary: m)
  case Nil
  then show ?case by simp
next
  case (Cons a zs)
  show ?case
  proof (cases "z = a")
    case True
    have "\<bar>a\<bar> \<le> (if \<bar>a\<bar> > m then \<bar>a\<bar> else m)" by simp
    also have "\<dots> \<le> fold (\<lambda>z maxZ. if \<bar>z\<bar> > maxZ then \<bar>z\<bar> else maxZ) zs (if \<bar>a\<bar> > m then \<bar>a\<bar> else m)"
      by (rule fold_maxAbs_ge)
    finally show ?thesis using True by simp
  next
    case False
    with Cons.prems have "z \<in> set zs" by simp
    then show ?thesis using Cons.IH by simp
  qed
qed

lemma maxAbsDepth_ge_1: "1 \<le> maxAbsDepth zs"
  unfolding maxAbsDepth_def by (rule fold_maxAbs_ge)

lemma maxAbsDepth_bound: "z \<in> set zs \<Longrightarrow> \<bar>z\<bar> \<le> maxAbsDepth zs"
  unfolding maxAbsDepth_def by (rule fold_maxAbs_bound)

lemma normalized_depth_range:
  assumes "0 < m" and "\<bar>z\<bar> \<le> (m::real)"
  shows "0 \<le> (z + m) / (2 * m)" and "(z + m) / (2 * m) \<le> 1"
  using assms by (simp_all add: field_simps)

lemma fog_term_le_1:
  assumes "0 \<le> (n::real)" and "n \<le> 1"
  shows "0.15 + n * n * 0.85 \<le> 1" and "0.05 \<le> 0.15 + n * n * 0.85"
proof -
  have "n * n \<le> 1 * 1" using assms by (intro mult_mono) simp_all
  then show "0.15 + n * n * 0.85 \<le> 1" by simp
  have "0 \<le> n * n" by simp
  then show "0.05 \<le> 0.15 + n * n * 0.85" by simp
qed

lemma editor_fog_matches_spec:
  assumes "0 < m" and "\<bar>z\<bar> \<le> m"
  shows "draw_targetOpacity layer True z m = spec_fogOpacity z m"
proof -
  let ?n = "(z + m) / (2 * m)"
  have r: "0 \<le> ?n" "?n \<le> 1" using assms by (rule normalized_depth_range)+
  have b: "0.15 + ?n * ?n * 0.85 \<le> 1" using r by (rule fog_term_le_1)
  show ?thesis
    using assms(1) b by (simp add: draw_targetOpacity_def spec_fogOpacity_def clamp_def Let_def min_def)
qed

text \<open>
  C5. The claim as stated: with depth fog on, the opacity target is
  \<open>clamp(0.05, 0.15 + normalizedDepth\<^sup>2 \<times> 0.85, 1)\<close> in the editor and in the renderer. The
  renderer computes \<open>max(0.1, 0.2 + nz\<^sup>2 \<times> 0.8)\<close> instead: at depth 0 with \<open>maxZ = 1\<close>
  it draws with opacity 0.4, where the formula of the claim gives 0.3625.
\<close>

theorem fog_renderer_counterexample: "r_drawOpacity True 0 1 \<noteq> spec_fogOpacity 0 1"
  by (simp add: r_drawOpacity_def spec_fogOpacity_def clamp_def Let_def)

text \<open>
  C5 (amended). For every particle of a tick, with \<open>maxZ\<close> the largest absolute depth of the
  tick floored at 1 and depth fog on: the opacity target of the editor's \<open>draw\<close> is
  \<open>clamp(0.05, 0.15 + normalizedDepth\<^sup>2 \<times> 0.85, 1)\<close>, and the opacity with which the renderer
  draws is \<open>max(0.1, 0.2 + normalizedDepth\<^sup>2 \<times> 0.8)\<close>, where
  \<open>normalizedDepth = (depth + maxZ) / (2 \<times> maxZ)\<close>.
\<close>

theorem fog_opacity_targets:
  "z \<in> set zs \<Longrightarrow>
     draw_targetOpacity layer True z (maxAbsDepth zs) = spec_fogOpacity z (maxAbsDepth zs)
     \<and> r_drawOpacity True z (maxAbsDepth zs)
         = max 0.1 (0.2 + ((z + maxAbsDepth zs) / (2 * maxAbsDepth zs))\<^sup>2 * 0.8)"
proof -
  assume z: "z \<in> set zs"
  have pos: "0 < maxAbsDepth zs" using maxAbsDepth_ge_1 [of zs] by simp
  have "draw_targetOpacity layer True z (maxAbsDepth zs) = spec_fogOpacity z (maxAbsDepth zs)"
    using pos maxAbsDepth_bound [OF z] by (rule editor_fog_matches_spec)
  moreover have "r_drawOpacity True z (maxAbsDepth zs)
         = max 0.1 (0.2 + ((z + maxAbsDepth zs) / (2 * maxAbsDepth zs))\<^sup>2 * 0.8)"
    using pos by (simp add: r_drawOpacity_def Let_def power2_eq_square)
  ultimately show ?thesis by simp
qed

theorem fog_opacity_targets_witness:
  "(3::real) \<in> set [3, - 4] \<and>
   draw_targetOpacity 1 True 3 (maxAbsDepth [3, - 4]) = spec_fogOpacity 3 (maxAbsDepth [3, - 4])
     \<and> r_drawOpacity True 3 (maxAbsDepth [3, - 4])
         = max 0.1 (0.2 + ((3 + maxAbsDepth [3, - 4]) / (2 * maxAbsDepth [3, - 4]))\<^sup>2 * 0.8)"
  using fog_opacity_targets [of 3 "[3, - 4]" 1] by simp

section \<open>Guards of morphToFrame and goTo\<close>



section \<open>Frame import\<close>




lemma r_frames_loadFrame: "r_frames (loadFrame i s) = r_frames s"
  by (simp add: loadFrame_def Let_def)







section \<open>Import defaults\<close>

text \<open>
  C7. The claim as stated: absent colour fields are defaulted to \<open>(74, 222, 128)\<close> at the
  import boundary, so that importing the payload of scenario B yields a frame whose point
  has that colour. The import of the editor stores the point of scenario B with its colour
  channels absent.
\<close>

theorem import_defaults_counterexample:
  "fst (handleFrameImport scenarioB [])
     \<noteq> [\<lparr> name = ''X'',
           points = [\<lparr> pt_targetX = 1, pt_targetY = 1, pt_baseZ = 0,
                       pt_r = Some 74, pt_g = Some 222, pt_b = Some 128 \<rparr>],
           pointCount = 1 \<rparr>]"
  by (simp add: scenarioB_def handleFrameImport_def importSingleFrame_def importPoint_def
        barePoint_def str_or_else_def or_else_def)

lemma scenarioB_editor:
  "handleFrameImport scenarioB fs
     = (fs @ [\<lparr> name = ''X'',
           points = [\<lparr> pt_targetX = 1, pt_targetY = 1, pt_baseZ = 0,
                       pt_r = None, pt_g = None, pt_b = None \<rparr>],
           pointCount = 1 \<rparr>], None)"
  by (simp add: scenarioB_def handleFrameImport_def importSingleFrame_def importPoint_def
        barePoint_def str_or_else_def or_else_def)

lemma scenarioB_renderer:
  "map_sum id r_frames (loadFrames scenarioB s)
     = Inr [\<lparr> nf_name = ''X'',
              nf_points = [\<lparr> np_x = 1, np_y = 1, np_z = 0, np_r = 74, np_g = 222, np_b = 128 \<rparr>] \<rparr>]"
  by (simp add: scenarioB_def loadFrames_def normalizeFrame_def
        normalizePoint_def barePoint_def r_frames_loadFrame str_or_else_def)

lemma normalizePoint_defaults:
  "np_r (normalizePoint p) = (case j_r p of Some c \<Rightarrow> c | None \<Rightarrow> 74)"
  "np_g (normalizePoint p) = (case j_g p of Some c \<Rightarrow> c | None \<Rightarrow> 222)"
  "np_b (normalizePoint p) = (case j_b p of Some c \<Rightarrow> c | None \<Rightarrow> 128)"
  "np_z (normalizePoint p) = (case j_z p of Some z \<Rightarrow> z | None \<Rightarrow> (case j_baseZ p of Some z \<Rightarrow> z | None \<Rightarrow> 0))"
  by (simp_all add: normalizePoint_def)

lemma importPoint_fields:
  "pt_r (importPoint p) = j_r p" "pt_g (importPoint p) = j_g p" "pt_b (importPoint p) = j_b p"
  "pt_baseZ (importPoint p) = (case j_z p of Some z \<Rightarrow> z | None \<Rightarrow> 0)"
  by (simp_all add: importPoint_def or_else_def split: option.splits)

lemma setMorphTarget_colour:
  "morphTargetR (setMorphTarget pt q) = (case pt_r pt of Some c \<Rightarrow> c | None \<Rightarrow> 74)"
  "morphTargetG (setMorphTarget pt q) = (case pt_g pt of Some c \<Rightarrow> c | None \<Rightarrow> 222)"
  "morphTargetB (setMorphTarget pt q) = (case pt_b pt of Some c \<Rightarrow> c | None \<Rightarrow> 128)"
  by (simp_all add: setMorphTarget_def)

text \<open>
  C7 (amended). For every imported point: the renderer's \<open>_normalizeFrame\<close> defaults absent
  colour channels to 74, 222 and 128; the editor's \<open>importSingleFrame\<close> stores them absent,
  and \<open>setMorphTarget\<close> reads an absent channel of a frame point as 74, 222 or 128 when the
  point becomes a morph target. An absent \<open>z\<close> becomes 0 in the editor, and in the renderer
  the point's \<open>baseZ\<close> if it has one, else 0. Importing the payload of scenario B appends
  exactly one frame named "X" with one point at \<open>(1, 1, 0)\<close> without colour in the editor,
  and gives the renderer exactly one frame named "X" with one point at \<open>(1, 1, 0)\<close> of colour
  \<open>(74, 222, 128)\<close>.
\<close>

theorem import_defaults:
  "(j_r p = None \<longrightarrow> np_r (normalizePoint p) = 74 \<and> pt_r (importPoint p) = None
       \<and> morphTargetR (setMorphTarget (importPoint p) q) = 74)
   \<and> (j_g p = None \<longrightarrow> np_g (normalizePoint p) = 222 \<and> pt_g (importPoint p) = None
       \<and> morphTargetG (setMorphTarget (importPoint p) q) = 222)
   \<and> (j_b p = None \<longrightarrow> np_b (normalizePoint p) = 128 \<and> pt_b (importPoint p) = None
       \<and> morphTargetB (setMorphTarget (importPoint p) q) = 128)
   \<and> (j_z p = None \<longrightarrow> pt_baseZ (importPoint p) = 0
       \<and> np_z (normalizePoint p) = (case j_baseZ p of Some z \<Rightarrow> z | None \<Rightarrow> 0))
   \<and> handleFrameImport scenarioB fs
       = (fs @ [\<lparr> name = ''X'',
                  points = [\<lparr> pt_targetX = 1, pt_targetY = 1, pt_baseZ = 0,
                              pt_r = None, pt_g = None, pt_b = None \<rparr>],
                  pointCount = 1 \<rparr>], None)
   \<and> map_sum id r_frames (loadFrames scenarioB s)
       = Inr [\<lparr> nf_name = ''X'',
                nf_points = [\<lparr> np_x = 1, np_y = 1, np_z = 0, np_r = 74, np_g = 222, np_b = 128 \<rparr>] \<rparr>]"
  by (simp add: normalizePoint_defaults importPoint_fields setMorphTarget_colour
        scenarioB_editor scenarioB_renderer)

theorem import_defaults_witness:
  "np_r (normalizePoint (barePoint 1 1)) = 74 \<and> np_g (normalizePoint (barePoint 1 1)) = 222
   \<and> np_b (normalizePoint (barePoint 1 1)) = 128 \<and> np_z (normalizePoint (barePoint 1 1)) = 0
   \<and> pt_r (importPoint (barePoint 1 1)) = None \<and> pt_baseZ (importPoint (barePoint 1 1)) = 0"
proof -
  have a: "j_r (barePoint 1 1) = None" "j_g (barePoint 1 1) = None" "j_b (barePoint 1 1) = None"
    "j_z (barePoint 1 1) = None" "j_baseZ (barePoint 1 1) = None"
    by (simp_all add: barePoint_def)
  show ?thesis
    using import_defaults [of "barePoint 1 1" undefined "[]" "newRenderer 400 300"] a by simp
qed

section \<open>The ticks of the editor\<close>

































section \<open>Starting a morph\<close>

text \<open>
  With random values in \<open>[0, 1)\<close> every random index is in range, so the spawn loop and the
  target loop of \<open>morphToFrame\<close> return: the first with at least as many particles as the
  target frame has points, the second with the particle of index \<open>j\<close> aimed at target point
  \<open>j\<close> and unmarked when there is such a point, and marked otherwise.
\<close>

declare spawn.simps [simp del] setTargets.simps [simp del]






section \<open>The ticks of the renderer\<close>













section \<open>The end of a morph\<close>






















section \<open>Base position and morph target when idle\<close>



















section \<open>Empty particle sets and empty frames\<close>

lemma emptyFirstFrame_load:
  "loadFrames emptyFirstFrame (newRenderer 400 300)
     = Inr ((newRenderer 400 300)
              \<lparr> r_frames := [\<lparr> nf_name = ''Empty'', nf_points = [] \<rparr>,
                             \<lparr> nf_name = ''Dot'', nf_points = [dot] \<rparr>] \<rparr>)"
  by (simp add: emptyFirstFrame_def loadFrames_def normalizeFrame_def normalizePoint_def
      barePoint_def str_or_else_def loadFrame_def Let_def dot_def newRenderer_def)

lemma emptyFrame_import:
  "handleFrameImport emptyFrame (frames scenarioC)
     = (frames scenarioC @ [\<lparr> name = ''Empty'', points = [], pointCount = 0 \<rparr>], None)"
  by (simp add: emptyFrame_def handleFrameImport_def importSingleFrame_def str_or_else_def)

text \<open>
  C10. Starting a morph from an empty particle set, or towards a frame without points,
  throws instead of doing nothing.
  \<^item> In the editor with its particles cleared and two saved frames, \<open>morphToFrame(0)\<close> reads
    \<open>baseX\<close> of \<open>particles[0]\<close>, which is \<open>undefined\<close>.
  \<^item> In the editor of scenario C, after the import of a frame without points as third
    frame, \<open>morphToFrame(2)\<close> calls \<open>setMorphTarget(targetPoints[0])\<close>, that is
    \<open>setMorphTarget(undefined)\<close>.
  \<^item> In the renderer, loading interchange data whose first frame has no points leaves no
    particles, and \<open>goTo(1)\<close> then reads \<open>baseX\<close> of \<open>this.particles[0]\<close>, which is
    \<open>undefined\<close>.
\<close>

theorem morph_empty_throws:
  "morphToFrame plainEnv (\<lambda>k. 0) 0 clearedEditor = Inl TypeError
   \<and> handleFrameImport emptyFrame (frames scenarioC)
       = (frames scenarioC @ [\<lparr> name = ''Empty'', points = [], pointCount = 0 \<rparr>], None)
   \<and> morphToFrame plainEnv (\<lambda>k. 0) 2
       (scenarioC\<lparr> frames := frames scenarioC @ [\<lparr> name = ''Empty'', points = [], pointCount = 0 \<rparr>] \<rparr>)
       = Inl TypeError
   \<and> loadFrames emptyFirstFrame (newRenderer 400 300)
       = Inr ((newRenderer 400 300)
                \<lparr> r_frames := [\<lparr> nf_name = ''Empty'', nf_points = [] \<rparr>,
                               \<lparr> nf_name = ''Dot'', nf_points = [dot] \<rparr>] \<rparr>)
   \<and> goTo (\<lambda>k. 0) 1
       ((newRenderer 400 300)
          \<lparr> r_frames := [\<lparr> nf_name = ''Empty'', nf_points = [] \<rparr>,
                         \<lparr> nf_name = ''Dot'', nf_points = [dot] \<rparr>] \<rparr>) = Inl TypeError"
proof -
  have "morphToFrame plainEnv (\<lambda>k. 0) 0 clearedEditor = Inl TypeError"
    by (simp add: morphToFrame_def clearedEditor_def initialEditor_def frameOf_def spawn.simps)
  moreover have "morphToFrame plainEnv (\<lambda>k. 0) 2
       (scenarioC\<lparr> frames := frames scenarioC @ [\<lparr> name = ''Empty'', points = [], pointCount = 0 \<rparr>] \<rparr>)
       = Inl TypeError"
    by (simp add: morphToFrame_def scenarioC_def initialEditor_def spawn.simps setTargets.simps)
  moreover have "goTo (\<lambda>k. 0) 1
       ((newRenderer 400 300)
          \<lparr> r_frames := [\<lparr> nf_name = ''Empty'', nf_points = [] \<rparr>,
                         \<lparr> nf_name = ''Dot'', nf_points = [dot] \<rparr>] \<rparr>) = Inl TypeError"
    by (simp add: goTo_def morphTo_def newRenderer_def Let_def r_spawn.simps)
  ultimately show ?thesis using emptyFirstFrame_load emptyFrame_import by simp
qed

section \<open>Fill-mode sampling\<close>

text \<open>
  With a positive stride the two loops terminate and emit one point for every visible grid
  position, row by row; the grid positions are the multiples of the stride below the width
  and the height. With stride 0 the loops never end on a source that has a pixel.
\<close>

declare strideFrom.simps [simp del]

lemma strideFrom_stop: "bound \<le> x \<Longrightarrow> strideFrom step bound x = []"
  by (subst strideFrom.simps) simp

lemma strideFrom_step:
  "0 < step \<Longrightarrow> x < bound \<Longrightarrow> strideFrom step bound x = x # strideFrom step bound (x + step)"
  by (subst strideFrom.simps) simp

lemma fillRow_eq:
  assumes step: "0 < step"
  shows "fillRow img sc step y x pts =
           Some (pts @ map (\<lambda>x. samplePoint img sc x y)
                         (filter (\<lambda>x. isWhite img (int x) (int y)) (strideFrom step (img_width img) x)))"
proof (induction "img_width img - x" arbitrary: x pts rule: less_induct)
  case less
  show ?case
  proof (cases "x < img_width img")
    case False
    then have "fillRow img sc step y x pts = Some pts" by (subst fillRow.simps) simp
    then show ?thesis using False by (simp add: strideFrom_stop)
  next
    case True
    let ?pts = "if isWhite img (int x) (int y) then pts @ [samplePoint img sc x y] else pts"
    have "fillRow img sc step y x pts = fillRow img sc step y (x + step) ?pts"
      using True by (subst fillRow.simps) simp
    also have "\<dots> = Some (?pts @ map (\<lambda>x. samplePoint img sc x y)
                         (filter (\<lambda>x. isWhite img (int x) (int y))
                            (strideFrom step (img_width img) (x + step))))"
      using True step by (intro less.hyps) simp
    finally show ?thesis using True step by (simp add: strideFrom_step)
  qed
qed

lemma fillRows_eq:
  assumes step: "0 < step"
  shows "fillRows img sc step y pts =
           Some (pts @ concat (map (\<lambda>y. map (\<lambda>x. samplePoint img sc x y)
                         (filter (\<lambda>x. isWhite img (int x) (int y)) (strideFrom step (img_width img) 0)))
                   (strideFrom step (img_height img) y)))"
proof (induction "img_height img - y" arbitrary: y pts rule: less_induct)
  case less
  show ?case
  proof (cases "y < img_height img")
    case False
    then have "fillRows img sc step y pts = Some pts" by (subst fillRows.simps) simp
    then show ?thesis using False by (simp add: strideFrom_stop)
  next
    case True
    let ?row = "map (\<lambda>x. samplePoint img sc x y)
                  (filter (\<lambda>x. isWhite img (int x) (int y)) (strideFrom step (img_width img) 0))"
    have "fillRows img sc step y pts = fillRows img sc step (y + step) (pts @ ?row)"
      using True by (subst fillRows.simps) (simp add: fillRow_eq [OF step])
    also have "\<dots> = Some ((pts @ ?row) @ concat (map (\<lambda>y. map (\<lambda>x. samplePoint img sc x y)
                         (filter (\<lambda>x. isWhite img (int x) (int y)) (strideFrom step (img_width img) 0)))
                   (strideFrom step (img_height img) (y + step))))"
      using True step by (intro less.hyps) simp
    finally show ?thesis using True step by (simp add: strideFrom_step)
  qed
qed

lemma processSampling_fill_eq:
  assumes "0 < step"
  shows "processSampling_fill img sc step =
           Some (map (\<lambda>(x, y). samplePoint img sc x y) (sampledCoords img step))"
proof -
  have "concat (map (\<lambda>y. map (\<lambda>x. samplePoint img sc x y)
                         (filter (\<lambda>x. isWhite img (int x) (int y)) (strideFrom step (img_width img) 0)))
                   ys)
        = map (\<lambda>(x, y). samplePoint img sc x y)
            (concat (map (\<lambda>y. map (\<lambda>x. (x, y))
                        (filter (\<lambda>x. isWhite img (int x) (int y)) (strideFrom step (img_width img) 0)))
               ys))" for ys
    by (induction ys) (simp_all add: comp_def)
  then show ?thesis
    by (simp add: processSampling_fill_def fillRows_eq [OF assms] sampledCoords_def)
qed

lemma strideFrom_set:
  assumes "0 < step"
  shows "set (strideFrom step bound x) = {z. x \<le> z \<and> z < bound \<and> step dvd (z - x)}"
proof (induction "bound - x" arbitrary: x rule: less_induct)
  case less
  show ?case
  proof (cases "x < bound")
    case False
    then show ?thesis by (auto simp add: strideFrom_stop)
  next
    case True
    have IH: "set (strideFrom step bound (x + step))
              = {z. x + step \<le> z \<and> z < bound \<and> step dvd (z - (x + step))}"
      using True assms by (intro less.hyps) simp
    have "{z. x \<le> z \<and> z < bound \<and> step dvd (z - x)}
          = insert x {z. x + step \<le> z \<and> z < bound \<and> step dvd (z - (x + step))}"
    proof (intro set_eqI iffI)
      fix z assume "z \<in> {z. x \<le> z \<and> z < bound \<and> step dvd (z - x)}"
      then have z: "x \<le> z" "z < bound" "step dvd (z - x)" by simp_all
      show "z \<in> insert x {z. x + step \<le> z \<and> z < bound \<and> step dvd (z - (x + step))}"
      proof (cases "z = x")
        case True
        then show ?thesis by simp
      next
        case False
        then have pos: "0 < z - x" using z(1) by simp
        from z(3) obtain k where k: "z - x = step * k" by (auto simp: dvd_def)
        with pos have "0 < k" by (cases k) simp_all
        then obtain k' where k': "k = Suc k'" by (cases k) simp_all
        have "z = x + step + step * k'" using k k' z(1) by simp
        then show ?thesis using z(2) by simp
      qed
    next
      fix z assume "z \<in> insert x {z. x + step \<le> z \<and> z < bound \<and> step dvd (z - (x + step))}"
      then consider "z = x" | "x + step \<le> z" "z < bound" "step dvd (z - (x + step))" by blast
      then show "z \<in> {z. x \<le> z \<and> z < bound \<and> step dvd (z - x)}"
      proof cases
        case 1
        then show ?thesis using True by simp
      next
        case 2
        from 2(3) obtain k where "z - (x + step) = step * k" by (auto simp: dvd_def)
        then have "z - x = step * Suc k" using 2(1) by simp
        then have "step dvd (z - x)" by (metis dvd_triv_left)
        then show ?thesis using 2 by simp
      qed
    qed
    then show ?thesis using True assms IH by (simp add: strideFrom_step)
  qed
qed

lemma strideFrom_distinct:
  assumes "0 < step"
  shows "distinct (strideFrom step bound x)"
proof (induction "bound - x" arbitrary: x rule: less_induct)
  case less
  show ?case
  proof (cases "x < bound")
    case False
    then show ?thesis by (simp add: strideFrom_stop)
  next
    case True
    have "distinct (strideFrom step bound (x + step))"
      using True assms by (intro less.hyps) simp
    moreover have "x \<notin> set (strideFrom step bound (x + step))"
      using assms by (simp add: strideFrom_set)
    ultimately show ?thesis using True assms by (simp add: strideFrom_step)
  qed
qed

lemma strideFrom_0_set:
  "0 < step \<Longrightarrow> set (strideFrom step bound 0) = {z. z < bound \<and> step dvd z}"
  by (simp add: strideFrom_set)

lemma sampledCoords_set:
  assumes "0 < step"
  shows "set (sampledCoords img step)
         = {(x, y). x < img_width img \<and> y < img_height img \<and> step dvd x \<and> step dvd y
                    \<and> isWhite img (int x) (int y)}"
  using assms by (auto simp add: sampledCoords_def strideFrom_0_set)

lemma distinct_rows:
  assumes "distinct ys" and "\<And>y. distinct (f y)" and "\<And>y p. p \<in> set (f y) \<Longrightarrow> snd p = y"
  shows "distinct (concat (map f ys))"
  using assms(1)
proof (induction ys)
  case Nil
  show ?case by simp
next
  case (Cons y ys)
  have "set (f y) \<inter> set (concat (map f ys)) = {}"
  proof (rule ccontr)
    assume "set (f y) \<inter> set (concat (map f ys)) \<noteq> {}"
    then obtain p where p: "p \<in> set (f y)" "p \<in> set (concat (map f ys))" by blast
    from p(2) obtain y' where "y' \<in> set ys" "p \<in> set (f y')" by auto
    with p(1) assms(3) have "y \<in> set ys" by metis
    with Cons.prems show False by simp
  qed
  then show ?case using Cons assms(2) by simp
qed

lemma sampledCoords_distinct:
  assumes "0 < step"
  shows "distinct (sampledCoords img step)"
  unfolding sampledCoords_def
proof (rule distinct_rows)
  show "distinct (strideFrom step (img_height img) 0)" using assms by (rule strideFrom_distinct)
next
  fix y
  show "distinct (map (\<lambda>x. (x, y))
          (filter (\<lambda>x. isWhite img (int x) (int y)) (strideFrom step (img_width img) 0)))"
    using strideFrom_distinct [OF assms] by (simp add: distinct_map inj_on_def)
next
  fix y p
  assume "p \<in> set (map (\<lambda>x. (x, y))
          (filter (\<lambda>x. isWhite img (int x) (int y)) (strideFrom step (img_width img) 0)))"
  then show "snd p = y" by auto
qed

lemma sampledCoords_mono:
  assumes "0 < s1" and "0 < s2" and "s1 dvd s2"
  shows "length (sampledCoords img s2) \<le> length (sampledCoords img s1)"
proof -
  have sub: "set (sampledCoords img s2) \<subseteq> set (sampledCoords img s1)"
    using assms(3) by (auto simp add: sampledCoords_set [OF assms(1)] sampledCoords_set [OF assms(2)]
        dest: dvd_trans)
  have "length (sampledCoords img s2) = card (set (sampledCoords img s2))"
    using sampledCoords_distinct [OF assms(2)] by (simp add: distinct_card)
  also have "\<dots> \<le> card (set (sampledCoords img s1))"
    using sub by (intro card_mono) simp_all
  also have "\<dots> = length (sampledCoords img s1)"
    using sampledCoords_distinct [OF assms(1)] by (simp add: distinct_card)
  finally show ?thesis .
qed

lemma fillRow_stride_0:
  "x < img_width img \<Longrightarrow> fillRow img sc 0 y x pts = None"
proof (induction arbitrary: x pts rule: fillRow.fixp_induct)
  case 1
  show ?case
    by (rule ccpo.admissibleI) (auto simp add: fun_lub_def flat_lub_def)
next
  case 2
  show ?case by simp
next
  case (3 f)
  then show ?case by simp
qed

lemma processSampling_fill_stride_0:
  "0 < img_width img \<Longrightarrow> 0 < img_height img \<Longrightarrow> processSampling_fill img sc 0 = None"
  unfolding processSampling_fill_def
  by (subst fillRows.simps) (simp add: fillRow_stride_0)

text \<open>
  C8. The claim as stated: a smaller stride never yields fewer points. On a row of four
  pixels of which only the one at \<open>x = 3\<close> is visible, stride 2 visits \<open>x = 0, 2\<close> and
  yields no point, while stride 3 visits \<open>x = 0, 3\<close> and yields one.
\<close>

theorem sampling_monotonicity_counterexample:
  "(2::nat) < 3
   \<and> processSampling_fill lastPixelImage 1 2 = Some []
   \<and> processSampling_fill lastPixelImage 1 3
       = Some [\<lparr> sp_x = 3, sp_y = 0, sp_r = Some 255, sp_g = Some 255, sp_b = Some 255 \<rparr>]"
  by (simp add: processSampling_fill_eq sampledCoords_def strideFrom.simps lastPixelImage_def
      isWhite_def getPixelColor_def at_index_def above128_def samplePoint_def)

text \<open>
  C8 (amended). For every pixel source and every pair of positive strides of which the
  smaller divides the larger, fill-mode sampling terminates for both and yields with the
  smaller stride at least as many points as with the larger.
\<close>

theorem sampling_monotonicity_divisor:
  assumes "0 < s1" and "0 < s2" and "s1 dvd s2"
  shows "\<exists>p1 p2. processSampling_fill img sc s1 = Some p1
           \<and> processSampling_fill img sc s2 = Some p2
           \<and> length p2 \<le> length p1"
  using sampledCoords_mono [OF assms, of img]
  by (simp add: processSampling_fill_eq [OF assms(1)] processSampling_fill_eq [OF assms(2)])

theorem sampling_monotonicity_divisor_witness:
  "\<exists>p1 p2. processSampling_fill lastPixelImage 1 1 = Some p1
           \<and> processSampling_fill lastPixelImage 1 3 = Some p2
           \<and> length p2 \<le> length p1"
proof -
  have "(0::nat) < 1" "(0::nat) < 3" "(1::nat) dvd 3" by simp_all
  then show ?thesis by (rule sampling_monotonicity_divisor)
qed

end
